theory Spec2Isabelle
  imports Complex_Main
begin

section \<open>JavaScript numbers\<close>

text \<open>
  \<^verbatim>\<open>app.js\<close> computes with JavaScript numbers. A number is modelled as a finite
  value, one of the two infinities, or NaN. Finite values are exact reals: rounding
  and overflow of IEEE doubles are not modelled, and the two zeros are one value (a
  zero divisor is the positive zero). What the model keeps is how the operators of
  the language treat the special values: a division by zero gives an infinity or
  NaN and never fails, and NaN spreads through every operator.
\<close>

datatype jsnum = Fin real | PInf | NInf | NaN

fun jneg :: "jsnum \<Rightarrow> jsnum" where
  "jneg (Fin a) = Fin (- a)"
| "jneg PInf = NInf"
| "jneg NInf = PInf"
| "jneg NaN = NaN"

fun jadd :: "jsnum \<Rightarrow> jsnum \<Rightarrow> jsnum" where
  "jadd NaN y = NaN"
| "jadd x NaN = NaN"
| "jadd (Fin a) (Fin b) = Fin (a + b)"
| "jadd PInf NInf = NaN"
| "jadd NInf PInf = NaN"
| "jadd PInf y = PInf"
| "jadd x PInf = PInf"
| "jadd NInf y = NInf"
| "jadd x NInf = NInf"

definition jsub :: "jsnum \<Rightarrow> jsnum \<Rightarrow> jsnum" where
  "jsub x y = jadd x (jneg y)"

text \<open>The sign of a number that is not NaN: \<open>-1\<close>, \<open>0\<close> or \<open>1\<close>.\<close>

fun jsgn :: "jsnum \<Rightarrow> int" where
  "jsgn (Fin a) = (if a < 0 then - 1 else if a = 0 then 0 else 1)"
| "jsgn PInf = 1"
| "jsgn NInf = - 1"
| "jsgn NaN = 0"

definition of_sign :: "int \<Rightarrow> jsnum" where
  "of_sign s = (if s = 0 then NaN else if 0 < s then PInf else NInf)"

fun jmul :: "jsnum \<Rightarrow> jsnum \<Rightarrow> jsnum" where
  "jmul NaN y = NaN"
| "jmul x NaN = NaN"
| "jmul (Fin a) (Fin b) = Fin (a * b)"
| "jmul x y = of_sign (jsgn x * jsgn y)"

fun jdiv :: "jsnum \<Rightarrow> jsnum \<Rightarrow> jsnum" where
  "jdiv NaN y = NaN"
| "jdiv x NaN = NaN"
| "jdiv (Fin a) (Fin b) = (if b = 0 then of_sign (jsgn (Fin a)) else Fin (a / b))"
| "jdiv (Fin a) y = Fin 0"
| "jdiv x (Fin b) = (if b < 0 then jneg x else x)"
| "jdiv x y = NaN"

text \<open>
  \<^verbatim>\<open>Math.PI\<close>, \<^verbatim>\<open>Math.cos\<close> and \<^verbatim>\<open>Math.sin\<close>, exact on finite arguments. They differ
  from the functions of the language by the rounding of IEEE doubles. The difference
  decides one thing: the exact cosine of 90 degrees is zero, while in the program
  \<^verbatim>\<open>Math.cos(90 * Math.PI / 180)\<close> is about \<open>6.12e-17\<close>, so that the program never
  divides by zero at a pole. What the program computes for an origin at a pole is
  therefore not a result of this theory: the theorems about the generated
  coordinates are about latitudes whose cosine is not zero, where the two agree up
  to rounding.
\<close>

definition Math_PI :: jsnum where
  "Math_PI = Fin pi"

fun Math_cos :: "jsnum \<Rightarrow> jsnum" where
  "Math_cos (Fin a) = Fin (cos a)"
| "Math_cos x = NaN"

fun Math_sin :: "jsnum \<Rightarrow> jsnum" where
  "Math_sin (Fin a) = Fin (sin a)"
| "Math_sin x = NaN"

text \<open>\<^verbatim>\<open>isNaN\<close> on a number, and the strict inequality \<^verbatim>\<open>!==\<close> of two numbers: NaN
  differs from every number, itself included.\<close>

definition isNaN :: "jsnum \<Rightarrow> bool" where
  "isNaN x = (x = NaN)"

definition strict_neq :: "jsnum \<Rightarrow> jsnum \<Rightarrow> bool" where
  "strict_neq x y = (x = NaN \<or> y = NaN \<or> x \<noteq> y)"

section \<open>Candidate points\<close>

record point =
  lat :: jsnum
  lon :: jsnum

text \<open>
  \<^verbatim>\<open>generateCandidatePoints(lat, lon, radiusKm)\<close>: the origin is pushed first, then
  \<^verbatim>\<open>directions.forEach\<close> pushes one point per direction. The loop is a left
  fold over \<open>directions\<close> whose state is the array \<open>candidates\<close>; \<^verbatim>\<open>push\<close> appends.
  The unused constant \<^verbatim>\<open>radToDeg\<close> of the source is left out.
\<close>

definition degToRad :: jsnum where
  "degToRad = jdiv Math_PI (Fin 180)"

definition directions :: "jsnum list" where
  "directions = [Fin 0, Fin 45, Fin 90, Fin 135, Fin 180, Fin 225, Fin 270, Fin 315]"

definition generateCandidatePoints :: "jsnum \<Rightarrow> jsnum \<Rightarrow> jsnum \<Rightarrow> point list" where
  "generateCandidatePoints lat0 lon0 radiusKm =
     (let candidates = [\<lparr>lat = lat0, lon = lon0\<rparr>];
          latDelta = jdiv radiusKm (Fin 111);
          lonDelta = jdiv radiusKm (jmul (Fin 111) (Math_cos (jmul lat0 degToRad)))
      in fold (\<lambda>angleDeg candidates.
                 let angleRad = jmul angleDeg degToRad;
                     dLat = jmul latDelta (Math_cos angleRad);
                     dLon = jmul lonDelta (Math_sin angleRad)
                 in candidates @ [\<lparr>lat = jadd lat0 dLat, lon = jadd lon0 dLon\<rparr>])
           directions candidates)"

text \<open>
  The generator as section 4.1 of the specification words it, over the reals: the
  latitude delta is the radius over 111, the longitude delta is the radius over
  111 times the cosine of the origin's latitude in radians, and the point at bearing
  \<open>theta\<close> (degrees, clockwise from north) is the origin moved by
  \<open>(latDelta * cos theta, lonDelta * sin theta)\<close>.
\<close>

definition spec_candidate :: "real \<Rightarrow> real \<Rightarrow> real \<Rightarrow> real \<Rightarrow> point" where
  "spec_candidate la lo r theta =
     (let latDelta = r / 111;
          lonDelta = r / (111 * cos (la * (pi / 180)));
          theta_rad = theta * (pi / 180)
      in \<lparr>lat = Fin (la + latDelta * cos theta_rad),
          lon = Fin (lo + lonDelta * sin theta_rad)\<rparr>)"

definition spec_bearings :: "real list" where
  "spec_bearings = [0, 45, 90, 135, 180, 225, 270, 315]"

section \<open>Values of a parsed response\<close>

text \<open>
  What \<^verbatim>\<open>resp.json()\<close> yields, and \<^verbatim>\<open>undefined\<close>, which reading a missing property
  yields. An object is the list of its members in the order of the text; where a
  name is repeated the last member counts, as \<^verbatim>\<open>JSON.parse\<close> has it.
\<close>

datatype jsval =
    JUndefined
  | JNull
  | JBool bool
  | JNum jsnum
  | JStr string
  | JArr "jsval list"
  | JObj "(string \<times> jsval) list"

datatype error =
    NetworkError      \<comment> \<open>\<^verbatim>\<open>fetch\<close> rejected: no connection, or the 15 s timeout aborted it\<close>
  | WeatherHttpError  \<comment> \<open>\<^verbatim>\<open>!resp.ok\<close> in \<^verbatim>\<open>getWeather\<close>\<close>
  | JsonSyntaxError   \<comment> \<open>\<^verbatim>\<open>resp.json()\<close> rejected\<close>
  | IncompleteData    \<comment> \<open>the error thrown at line 169\<close>
  | TypeError         \<comment> \<open>a property read on \<^verbatim>\<open>null\<close> or \<^verbatim>\<open>undefined\<close>\<close>
  | GeocodingHttpError
  | PlaceNotFound     \<comment> \<open>the error thrown at line 46\<close>

definition bind :: "error + 'a \<Rightarrow> ('a \<Rightarrow> error + 'b) \<Rightarrow> error + 'b" where
  "bind m f = (case m of Inl e \<Rightarrow> Inl e | Inr x \<Rightarrow> f x)"

fun truthy :: "jsval \<Rightarrow> bool" where
  "truthy JUndefined = False"
| "truthy JNull = False"
| "truthy (JBool b) = b"
| "truthy (JNum n) = (n \<noteq> NaN \<and> n \<noteq> Fin 0)"
| "truthy (JStr s) = (s \<noteq> [])"
| "truthy (JArr xs) = True"
| "truthy (JObj kvs) = True"

text \<open>
  \<^verbatim>\<open>v.k\<close> for the property names the program reads (\<^verbatim>\<open>weather\<close>, \<^verbatim>\<open>hourly\<close>,
  \<^verbatim>\<open>chanceofremdry\<close>, \<^verbatim>\<open>precipMM\<close>, \<^verbatim>\<open>nearest_area\<close>, \<^verbatim>\<open>areaName\<close>, \<^verbatim>\<open>value\<close>): none
  of them is a member of a prototype, so only an object can have one. Reading a
  property of \<^verbatim>\<open>null\<close> or \<^verbatim>\<open>undefined\<close> throws.
\<close>

fun get :: "jsval \<Rightarrow> string \<Rightarrow> error + jsval" where
  "get JUndefined k = Inl TypeError"
| "get JNull k = Inl TypeError"
| "get (JObj kvs) k = Inr (case map_of (rev kvs) k of None \<Rightarrow> JUndefined | Some v \<Rightarrow> v)"
| "get v k = Inr JUndefined"

text \<open>\<^verbatim>\<open>v[0]\<close>: the first element of an array, the first character of a string, the
  member named \<^verbatim>\<open>0\<close> of an object.\<close>

fun first :: "jsval \<Rightarrow> error + jsval" where
  "first JUndefined = Inl TypeError"
| "first JNull = Inl TypeError"
| "first (JArr []) = Inr JUndefined"
| "first (JArr (x # xs)) = Inr x"
| "first (JStr []) = Inr JUndefined"
| "first (JStr (c # cs)) = Inr (JStr [c])"
| "first (JObj kvs) = get (JObj kvs) ''0''"
| "first v = Inr JUndefined"

text \<open>
  The coercions \<^verbatim>\<open>Number\<close> and \<^verbatim>\<open>parseFloat\<close> belong to the language, not to the
  program. The program is modelled over any pair of them; NaN is what they return
  for a value that is not a number.
\<close>

record runtime =
  Number :: "jsval \<Rightarrow> jsnum"
  parseFloat :: "jsval \<Rightarrow> jsnum"

section \<open>The weather of one point\<close>

text \<open>
  The answer of the weather service to one request, as \<^verbatim>\<open>proxiedFetch\<close> and
  \<^verbatim>\<open>resp.json()\<close> deliver it: the fetch is rejected, or there is a response with its
  \<^verbatim>\<open>ok\<close> flag and a body that parses as JSON or does not. The network is what the
  service answers to the coordinates of a request.
\<close>

datatype response = Rejected | Response bool "jsval option"

type_synonym network = "jsnum \<Rightarrow> jsnum \<Rightarrow> response"

record weather =
  dryness :: jsnum
  precip :: jsnum
  nearest :: jsval

text \<open>\<^verbatim>\<open>hourly.forEach\<close> of lines 174 to 177; the state is the two sums.\<close>

fun sum_hours :: "runtime \<Rightarrow> jsval list \<Rightarrow> jsnum \<times> jsnum \<Rightarrow> error + jsnum \<times> jsnum" where
  "sum_hours rt [] totals = Inr totals"
| "sum_hours rt (h # hs) (drynessSum, precipSum) =
     bind (get h ''chanceofremdry'') (\<lambda>c.
     bind (get h ''precipMM'') (\<lambda>m.
       sum_hours rt hs (jadd drynessSum (Number rt c), jadd precipSum (parseFloat rt m))))"

text \<open>Lines 181 to 184: the name of the nearest place, or the empty string.\<close>

definition nearest_name :: "jsval \<Rightarrow> error + jsval" where
  "nearest_name data =
     bind (get data ''nearest_area'') (\<lambda>area.
       case area of
         JArr xs \<Rightarrow>
           bind (first area) (\<lambda>a0.
             if truthy a0 then
               bind (get a0 ''areaName'') (\<lambda>areaName.
                 if truthy areaName then
                   bind (first areaName) (\<lambda>n0. get n0 ''value'')
                 else Inr (JStr []))
             else Inr (JStr []))
       | _ \<Rightarrow> Inr (JStr []))"

text \<open>Lines 167 to 171: the hourly series of the first forecast day, or the error of
  line 169 when there is no first day or its \<^verbatim>\<open>hourly\<close> is not an array.\<close>

definition hourly_series :: "jsval \<Rightarrow> error + jsval list" where
  "hourly_series data =
     bind (get data ''weather'') (\<lambda>w.
     bind (if truthy w then first w else Inr w) (\<lambda>weather.
       if \<not> truthy weather then Inl IncompleteData
       else bind (get weather ''hourly'') (\<lambda>hourly.
         case hourly of JArr hs \<Rightarrow> Inr hs | _ \<Rightarrow> Inl IncompleteData)))"

text \<open>Lines 172 to 179: the mean dryness and the total precipitation of the series.\<close>

definition evaluate_series :: "runtime \<Rightarrow> jsval list \<Rightarrow> error + jsnum \<times> jsnum" where
  "evaluate_series rt hourly =
     bind (sum_hours rt hourly (Fin 0, Fin 0)) (\<lambda>(drynessSum, precipSum).
       let drynessAvg = jdiv drynessSum (Fin (real (length hourly)));
           precipTotal = precipSum
       in Inr (drynessAvg, precipTotal))"

text \<open>
  \<^verbatim>\<open>getWeather\<close>, lines 158 to 186: the request, the two checks of the response, and
  the three parts above in the order of the source, so that the first of them that
  throws decides the error.
\<close>

definition getWeather :: "runtime \<Rightarrow> network \<Rightarrow> jsnum \<Rightarrow> jsnum \<Rightarrow> error + weather" where
  "getWeather rt net la lo =
     (case net la lo of
        Rejected \<Rightarrow> Inl NetworkError
      | Response ok body \<Rightarrow>
          if \<not> ok then Inl WeatherHttpError
          else case body of
            None \<Rightarrow> Inl JsonSyntaxError
          | Some data \<Rightarrow>
              bind (hourly_series data) (\<lambda>hourly.
              bind (evaluate_series rt hourly) (\<lambda>(drynessAvg, precipTotal).
              bind (nearest_name data) (\<lambda>nearestName.
                Inr \<lparr>dryness = drynessAvg, precip = precipTotal, nearest = nearestName\<rparr>))))"

section \<open>The best site\<close>

record evaluation = point +
  dryness :: jsnum
  precip :: jsnum
  nearest :: jsval

text \<open>
  The \<^verbatim>\<open>for\<close> loop of \<^verbatim>\<open>findBestWeather\<close>. Its state is the array \<open>results\<close>, the
  warnings written to the console, and the points whose weather was requested.
  \<^verbatim>\<open>getWeather\<close> returns an object whenever it returns, so the test \<^verbatim>\<open>if (data)\<close>
  always succeeds; whatever is thrown inside \<^verbatim>\<open>try\<close> is caught and logged.
\<close>

record search =
  results :: "evaluation list"
  warnings :: "(point \<times> error) list"
  requested :: "point list"

fun collect :: "runtime \<Rightarrow> network \<Rightarrow> point list \<Rightarrow> search \<Rightarrow> search" where
  "collect rt net [] st = st"
| "collect rt net (pt # pts) st =
     (case getWeather rt net (lat pt) (lon pt) of
        Inr data \<Rightarrow>
          collect rt net pts
            (st\<lparr>results := results st @
                   [\<lparr>lat = lat pt, lon = lon pt, dryness = weather.dryness data,
                     precip = weather.precip data, nearest = weather.nearest data\<rparr>],
                requested := requested st @ [pt]\<rparr>)
      | Inl err \<Rightarrow>
          collect rt net pts
            (st\<lparr>warnings := warnings st @ [(pt, err)],
                requested := requested st @ [pt]\<rparr>))"

text \<open>The comparison function of lines 143 to 146.\<close>

definition compare :: "evaluation \<Rightarrow> evaluation \<Rightarrow> jsnum" where
  "compare a b =
     (if strict_neq (dryness b) (dryness a) then jsub (dryness b) (dryness a)
      else jsub (precip a) (precip b))"

text \<open>
  \<^verbatim>\<open>Array.prototype.sort\<close> with a comparison function. The language requires the sort
  to be stable, and reads a result of the comparison that is NaN as zero. For a
  comparison that orders the elements consistently this fixes the outcome, which is
  the one the stable insertion sort below computes: an element is moved behind
  another only where the comparison of the two is greater than zero. Where scores
  are NaN the comparison is not consistent and the language leaves the order to the
  implementation, of which this sort is one; the result about the winner is stated
  for numeric scores.
\<close>

definition positive :: "jsnum \<Rightarrow> bool" where
  "positive v = (case v of Fin a \<Rightarrow> 0 < a | PInf \<Rightarrow> True | _ \<Rightarrow> False)"

fun insert_sorted :: "('a \<Rightarrow> 'a \<Rightarrow> jsnum) \<Rightarrow> 'a \<Rightarrow> 'a list \<Rightarrow> 'a list" where
  "insert_sorted cmp x [] = [x]"
| "insert_sorted cmp x (y # ys) =
     (if positive (cmp x y) then y # insert_sorted cmp x ys else x # y # ys)"

definition Array_sort :: "('a \<Rightarrow> 'a \<Rightarrow> jsnum) \<Rightarrow> 'a list \<Rightarrow> 'a list" where
  "Array_sort cmp xs = foldr (insert_sorted cmp) xs []"

definition empty_search :: search where
  "empty_search = \<lparr>results = [], warnings = [], requested = []\<rparr>"

text \<open>\<^verbatim>\<open>results[0]\<close> of an empty array is \<^verbatim>\<open>undefined\<close>: the result \<open>None\<close>.\<close>

definition findBestWeather :: "runtime \<Rightarrow> network \<Rightarrow> point list \<Rightarrow> evaluation option" where
  "findBestWeather rt net points =
     (let st = collect rt net points empty_search;
          sorted = Array_sort compare (results st)
      in case sorted of [] \<Rightarrow> None | best # rest \<Rightarrow> Some best)"

section \<open>The search form\<close>

text \<open>
  What the page shows when the handler is done: nothing new (the handler returned
  at line 35), the error card of the \<^verbatim>\<open>catch\<close> block, the card of \<^verbatim>\<open>showResult\<close>
  for no site, or its card for the best site.
\<close>

datatype display =
    Unchanged
  | ErrorCard error
  | NoSiteCard
  | BestCard evaluation string jsnum

definition showResult :: "evaluation option \<Rightarrow> string \<Rightarrow> jsnum \<Rightarrow> display" where
  "showResult best place radiusKm =
     (case best of None \<Rightarrow> NoSiteCard | Some b \<Rightarrow> BestCard b place radiusKm)"

text \<open>
  The calls the handler makes, in order: the geocoding request, the call of
  \<^verbatim>\<open>generateCandidatePoints\<close> with its three arguments, and the weather requests.
\<close>

datatype call =
    Geocoding string
  | Generate jsnum jsnum jsnum
  | WeatherRequest point

record outcome =
  calls :: "call list"
  shown :: display

text \<open>\<^verbatim>\<open>String.prototype.trim\<close> on strings of one-byte characters.\<close>

definition is_space :: "char \<Rightarrow> bool" where
  "is_space c = (c \<in> set [CHR 0x09, CHR 0x0A, CHR 0x0B, CHR 0x0C, CHR 0x0D, CHR 0x20, CHR 0xA0])"

definition trim :: "string \<Rightarrow> string" where
  "trim s = rev (dropWhile is_space (rev (dropWhile is_space s)))"

text \<open>
  The submit handler of lines 30 to 61. \<^verbatim>\<open>getCoordinates\<close> stands for its outcome:
  an error, no match, or the coordinates of the first match, which are numbers.
  Nothing after the geocoding can throw on numbers, so the \<^verbatim>\<open>catch\<close> block is
  reached from the geocoding only.
\<close>

type_synonym geocoder = "string \<Rightarrow> error + point option"

definition submit :: "runtime \<Rightarrow> geocoder \<Rightarrow> network \<Rightarrow> string \<Rightarrow> string \<Rightarrow> outcome" where
  "submit rt getCoordinates net location_value radius_value =
     (let location = trim location_value;
          radiusKm = parseFloat rt (JStr radius_value)
      in if location = [] \<or> isNaN radiusKm then \<lparr>calls = [], shown = Unchanged\<rparr>
         else case getCoordinates location of
           Inl err \<Rightarrow> \<lparr>calls = [Geocoding location], shown = ErrorCard err\<rparr>
         | Inr None \<Rightarrow> \<lparr>calls = [Geocoding location], shown = ErrorCard PlaceNotFound\<rparr>
         | Inr (Some coords) \<Rightarrow>
             let candidates = generateCandidatePoints (lat coords) (lon coords) radiusKm;
                 best = findBestWeather rt net candidates
             in \<lparr>calls = [Geocoding location, Generate (lat coords) (lon coords) radiusKm] @
                         map WeatherRequest (requested (collect rt net candidates empty_search)),
                 shown = showResult best location radiusKm\<rparr>)"

section \<open>A runtime for the examples\<close>

text \<open>
  The general results hold for every pair of coercions. The examples need one
  pair to compute with. It reads a string as ECMAScript does when the string is an
  optional sign followed by \<^verbatim>\<open>Infinity\<close> or by decimal digits with an optional
  fraction, surrounded by white space; \<^verbatim>\<open>Number\<close> reads the empty string as zero.
  Exponents, radix prefixes, text after the number and objects in the place of a
  number are outside what the examples use, and are read as NaN here.
\<close>

definition digit_of :: "char \<Rightarrow> nat option" where
  "digit_of = map_of
     [(CHR ''0'', 0), (CHR ''1'', 1), (CHR ''2'', 2), (CHR ''3'', 3), (CHR ''4'', 4),
      (CHR ''5'', 5), (CHR ''6'', 6), (CHR ''7'', 7), (CHR ''8'', 8), (CHR ''9'', 9)]"

fun digits_value :: "string \<Rightarrow> nat \<Rightarrow> nat option" where
  "digits_value [] n = Some n"
| "digits_value (c # cs) n =
     (case digit_of c of None \<Rightarrow> None | Some d \<Rightarrow> digits_value cs (10 * n + d))"

definition decimal_literal :: "string \<Rightarrow> jsnum" where
  "decimal_literal s =
     (let whole = takeWhile (\<lambda>c. c \<noteq> CHR ''.'') s;
          frac = drop 1 (dropWhile (\<lambda>c. c \<noteq> CHR ''.'') s)
      in if whole = [] \<and> frac = [] then NaN
         else case (digits_value whole 0, digits_value frac 0) of
           (Some n, Some f) \<Rightarrow> Fin (real n + real f / 10 ^ length frac)
         | _ \<Rightarrow> NaN)"

definition unsigned_literal :: "string \<Rightarrow> jsnum" where
  "unsigned_literal s = (if s = ''Infinity'' then PInf else decimal_literal s)"

fun signed_literal :: "string \<Rightarrow> jsnum" where
  "signed_literal [] = NaN"
| "signed_literal (c # cs) =
     (if c = CHR ''-'' then jneg (unsigned_literal cs)
      else if c = CHR ''+'' then unsigned_literal cs
      else unsigned_literal (c # cs))"

fun js_Number :: "jsval \<Rightarrow> jsnum" where
  "js_Number JUndefined = NaN"
| "js_Number JNull = Fin 0"
| "js_Number (JBool b) = (if b then Fin 1 else Fin 0)"
| "js_Number (JNum n) = n"
| "js_Number (JStr s) = (if trim s = [] then Fin 0 else signed_literal (trim s))"
| "js_Number v = NaN"

fun js_parseFloat :: "jsval \<Rightarrow> jsnum" where
  "js_parseFloat (JNum n) = n"
| "js_parseFloat (JStr s) = signed_literal (trim s)"
| "js_parseFloat v = NaN"

definition js :: runtime where
  "js = \<lparr>Number = js_Number, parseFloat = js_parseFloat\<rparr>"

section \<open>Vocabulary of the claims\<close>

text \<open>
  The definitions of this section are not code of the program. They name what the
  specification talks about, so that the theorems can compare the program with it.
\<close>

text \<open>The point that one round of \<^verbatim>\<open>directions.forEach\<close> pushes.\<close>

definition bearing_point :: "jsnum \<Rightarrow> jsnum \<Rightarrow> jsnum \<Rightarrow> jsnum \<Rightarrow> point" where
  "bearing_point lat0 lon0 radiusKm angleDeg =
     \<lparr>lat = jadd lat0 (jmul (jdiv radiusKm (Fin 111)) (Math_cos (jmul angleDeg degToRad))),
      lon = jadd lon0 (jmul (jdiv radiusKm (jmul (Fin 111) (Math_cos (jmul lat0 degToRad))))
                        (Math_sin (jmul angleDeg degToRad)))\<rparr>"

text \<open>The order of numbers; NaN is neither below nor above anything.\<close>

fun num_less :: "jsnum \<Rightarrow> jsnum \<Rightarrow> bool" where
  "num_less (Fin a) (Fin b) = (a < b)"
| "num_less (Fin a) PInf = True"
| "num_less NInf (Fin b) = True"
| "num_less NInf PInf = True"
| "num_less x y = False"

text \<open>
  An evaluation is numeric when neither score is NaN, as the data model of the
  specification has it (a dryness score from 0 to 100, a precipitation total of at
  least 0). The ranking of section 4.3: \<open>a\<close> is better than \<open>b\<close> when its dryness
  score is higher, or the dryness scores are equal and its total precipitation is
  lower.
\<close>

definition numeric :: "evaluation \<Rightarrow> bool" where
  "numeric e = (dryness e \<noteq> NaN \<and> precip e \<noteq> NaN)"

definition better :: "evaluation \<Rightarrow> evaluation \<Rightarrow> bool" where
  "better a b = (num_less (dryness b) (dryness a) \<or>
                 (dryness a = dryness b \<and> num_less (precip a) (precip b)))"

text \<open>
  The winner of a list stands at index \<open>i\<close>: no entry of the list is better than
  it, and it is better than every entry listed before it. So among the entries
  that no other entry beats, the winner is the one listed first.
\<close>

definition winner_at :: "evaluation list \<Rightarrow> nat \<Rightarrow> bool" where
  "winner_at rs i = (i < length rs \<and>
      (\<forall>j < length rs. \<not> better (rs ! j) (rs ! i)) \<and>
      (\<forall>j < i. better (rs ! i) (rs ! j)))"

text \<open>
  What the language asks of a sort for a consistent comparison: \<open>p\<close> lists the
  indices of \<open>rs\<close> in their order after the sort, no entry stands behind one that
  the comparison places after it, and entries that the comparison does not separate
  keep their order.
\<close>

definition stable_order :: "('a \<Rightarrow> 'a \<Rightarrow> jsnum) \<Rightarrow> 'a list \<Rightarrow> nat list \<Rightarrow> bool" where
  "stable_order cmp rs p =
     (distinct p \<and> set p = {..<length rs} \<and>
      (\<forall>l < length p. \<forall>k < l.
         \<not> positive (cmp (rs ! (p ! k)) (rs ! (p ! l))) \<and>
         (\<not> positive (cmp (rs ! (p ! l)) (rs ! (p ! k))) \<longrightarrow> p ! k < p ! l)))"

text \<open>
  What one candidate contributes to the ranked list: its evaluation when
  \<^verbatim>\<open>getWeather\<close> returns, nothing when it throws.
\<close>

definition site_evaluation :: "runtime \<Rightarrow> network \<Rightarrow> point \<Rightarrow> evaluation option" where
  "site_evaluation rt net pt =
     (case getWeather rt net (lat pt) (lon pt) of
        Inr data \<Rightarrow> Some \<lparr>lat = lat pt, lon = lon pt, dryness = weather.dryness data,
                          precip = weather.precip data, nearest = weather.nearest data\<rparr>
      | Inl err \<Rightarrow> None)"

definition fails :: "runtime \<Rightarrow> network \<Rightarrow> point \<Rightarrow> bool" where
  "fails rt net pt =
     (case getWeather rt net (lat pt) (lon pt) of Inl err \<Rightarrow> True | Inr data \<Rightarrow> False)"

definition site_of :: "evaluation \<Rightarrow> point" where
  "site_of e = \<lparr>lat = lat e, lon = lon e\<rparr>"

text \<open>
  The two values of an hour as the evaluator coerces them. An hour is readable when
  it is neither \<^verbatim>\<open>null\<close> nor \<^verbatim>\<open>undefined\<close>, so that reading its properties does not
  throw.
\<close>

definition field :: "jsval \<Rightarrow> string \<Rightarrow> jsval" where
  "field v k = (case get v k of Inr x \<Rightarrow> x | Inl e \<Rightarrow> JUndefined)"

definition readable :: "jsval \<Rightarrow> bool" where
  "readable v = (v \<noteq> JUndefined \<and> v \<noteq> JNull)"

definition hour_dryness :: "runtime \<Rightarrow> jsval \<Rightarrow> jsnum" where
  "hour_dryness rt h = Number rt (field h ''chanceofremdry'')"

definition hour_precip :: "runtime \<Rightarrow> jsval \<Rightarrow> jsnum" where
  "hour_precip rt h = parseFloat rt (field h ''precipMM'')"

section \<open>Inputs of the examples\<close>

text \<open>A response whose first day has no hours at all.\<close>

definition empty_series_body :: jsval where
  "empty_series_body = JObj [(''weather'', JArr [JObj [(''hourly'', JArr [])]])]"

definition empty_series_service :: network where
  "empty_series_service la lo = Response True (Some empty_series_body)"

text \<open>A response with two hours; the dryness chance of the second is not a number.\<close>

definition unparsable_body :: jsval where
  "unparsable_body = JObj [(''weather'', JArr [JObj [(''hourly'', JArr
      [JObj [(''chanceofremdry'', JStr ''85''), (''precipMM'', JStr ''0.1'')],
       JObj [(''chanceofremdry'', JStr ''n/a''), (''precipMM'', JStr ''0.3'')]])]])]"

definition unparsable_service :: network where
  "unparsable_service la lo = Response True (Some unparsable_body)"

text \<open>The same two hours, and a nearest area whose list of names is empty.\<close>

definition unparsable_no_place_body :: jsval where
  "unparsable_no_place_body = JObj
     [(''weather'', JArr [JObj [(''hourly'', JArr
        [JObj [(''chanceofremdry'', JStr ''85''), (''precipMM'', JStr ''0.1'')],
         JObj [(''chanceofremdry'', JStr ''n/a''), (''precipMM'', JStr ''0.3'')]])]]),
      (''nearest_area'', JArr [JObj [(''areaName'', JArr [])]])]"

definition unparsable_no_place_service :: network where
  "unparsable_no_place_service la lo = Response True (Some unparsable_no_place_body)"

text \<open>A response whose only hour has no dryness chance.\<close>

definition missing_field_body :: jsval where
  "missing_field_body = JObj [(''weather'', JArr [JObj [(''hourly'', JArr
      [JObj [(''precipMM'', JStr ''0.0'')]])]])]"

definition missing_field_service :: network where
  "missing_field_service la lo = Response True (Some missing_field_body)"

text \<open>
  A service that answers by latitude with a forecast of one hour: dryness 80 with
  1.2 mm at latitude 0, dryness 80 with 0.5 mm at latitudes 1 and 2, dryness 70
  with no rain at latitude 3, and no answer anywhere else. The points are listed
  with a failing one in second place.
\<close>

definition one_hour :: "string \<Rightarrow> string \<Rightarrow> jsval" where
  "one_hour d p = JObj [(''weather'', JArr [JObj [(''hourly'', JArr
      [JObj [(''chanceofremdry'', JStr d), (''precipMM'', JStr p)]])]])]"

definition tie_service :: network where
  "tie_service la lo =
     (if la = Fin 0 then Response True (Some (one_hour ''80'' ''1.2''))
      else if la = Fin 1 then Response True (Some (one_hour ''80'' ''0.5''))
      else if la = Fin 2 then Response True (Some (one_hour ''80'' ''0.5''))
      else if la = Fin 3 then Response True (Some (one_hour ''70'' ''0.0''))
      else Rejected)"

definition tie_points :: "point list" where
  "tie_points = [\<lparr>lat = Fin 0, lon = Fin 0\<rparr>, \<lparr>lat = Fin 4, lon = Fin 0\<rparr>,
                 \<lparr>lat = Fin 1, lon = Fin 0\<rparr>, \<lparr>lat = Fin 2, lon = Fin 0\<rparr>,
                 \<lparr>lat = Fin 3, lon = Fin 0\<rparr>]"

definition tie_results :: "evaluation list" where
  "tie_results =
     [\<lparr>lat = Fin 0, lon = Fin 0, dryness = Fin 80, precip = Fin 1.2, nearest = JStr []\<rparr>,
      \<lparr>lat = Fin 1, lon = Fin 0, dryness = Fin 80, precip = Fin 0.5, nearest = JStr []\<rparr>,
      \<lparr>lat = Fin 2, lon = Fin 0, dryness = Fin 80, precip = Fin 0.5, nearest = JStr []\<rparr>,
      \<lparr>lat = Fin 3, lon = Fin 0, dryness = Fin 70, precip = Fin 0, nearest = JStr []\<rparr>]"

text \<open>
  A service that answers with dryness 80 at latitude 0, with an hour that has no
  dryness chance at latitude 1, and with dryness 90 at latitude 2.
\<close>

definition gap_service :: network where
  "gap_service la lo =
     (if la = Fin 0 then Response True (Some (one_hour ''80'' ''0.0''))
      else if la = Fin 1 then Response True (Some missing_field_body)
      else if la = Fin 2 then Response True (Some (one_hour ''90'' ''0.0''))
      else Rejected)"

definition gap_points :: "point list" where
  "gap_points = [\<lparr>lat = Fin 0, lon = Fin 0\<rparr>, \<lparr>lat = Fin 1, lon = Fin 0\<rparr>,
                 \<lparr>lat = Fin 2, lon = Fin 0\<rparr>]"

text \<open>No connection: every request is rejected.\<close>

definition offline :: network where
  "offline la lo = Rejected"

definition berlin :: point where
  "berlin = \<lparr>lat = Fin 52.52, lon = Fin 13.405\<rparr>"

definition berlin_geocoder :: geocoder where
  "berlin_geocoder place = (if place = ''Berlin'' then Inr (Some berlin) else Inr None)"

section \<open>Evaluating the examples\<close>

lemmas js_simps =
  js_def trim_def is_space_def unsigned_literal_def decimal_literal_def digit_of_def

lemmas getWeather_simps =
  getWeather_def hourly_series_def evaluate_series_def nearest_name_def bind_def

section \<open>Properties of the candidate generator\<close>

lemma fold_push: "fold (\<lambda>x acc. acc @ [f x]) xs acc = acc @ map f xs"
  by (induction xs arbitrary: acc) simp_all

lemma generate_unfold:
  "generateCandidatePoints lat0 lon0 radiusKm =
     \<lparr>lat = lat0, lon = lon0\<rparr> # map (bearing_point lat0 lon0 radiusKm) directions"
  unfolding generateCandidatePoints_def Let_def bearing_point_def
  by (simp add: fold_push)

lemma degToRad_eq: "degToRad = Fin (pi / 180)"
  by (simp add: degToRad_def Math_PI_def)

lemma length_directions: "length directions = 8"
  by (simp add: directions_def)

lemma length_generate: "length (generateCandidatePoints x y z) = 9"
  by (simp add: generate_unfold length_directions)

lemma directions_eq: "directions = map Fin spec_bearings"
  by (simp add: directions_def spec_bearings_def)

lemma bearing_nth:
  assumes "i < 8"
  shows "directions ! i = Fin (45 * real i)"
proof -
  from assms have "i \<in> {0, 1, 2, 3, 4, 5, 6, 7}" by auto
  then show ?thesis by (auto simp: directions_def)
qed

lemma bearing_point_real:
  assumes "cos (la * (pi / 180)) \<noteq> 0"
  shows "bearing_point (Fin la) (Fin lo) (Fin r) (Fin theta) = spec_candidate la lo r theta"
  using assms by (simp add: bearing_point_def spec_candidate_def degToRad_eq Let_def)

lemma cos_deg_pos:
  assumes "- 90 < la" "la < 90"
  shows "0 < cos (la * (pi / 180))"
proof -
  have "pi * (- 90) < pi * la" "pi * la < pi * 90"
    using assms pi_gt_zero by (simp_all only: mult_less_cancel_left_pos)
  then have "- (pi / 2) < la * (pi / 180)" "la * (pi / 180) < pi / 2"
    by (simp_all add: field_simps)
  then show ?thesis by (rule cos_gt_zero_pi)
qed

text \<open>
  Claim C2. For an origin between the poles (a latitude strictly between -90 and
  90 degrees) and a radius above zero, \<^verbatim>\<open>generateCandidatePoints\<close> returns exactly
  nine points: the origin itself, unchanged, and then the points at the bearings
  0, 45, 90, 135, 180, 225, 270 and 315 degrees, in this order.
\<close>

theorem generateCandidatePoints_nine_points:
  assumes "- 90 < la" "la < 90" "0 < r"
  shows "length (generateCandidatePoints (Fin la) (Fin lo) (Fin r)) = 9 \<and>
         generateCandidatePoints (Fin la) (Fin lo) (Fin r) =
           \<lparr>lat = Fin la, lon = Fin lo\<rparr> # map (spec_candidate la lo r) spec_bearings"
proof -
  have "cos (la * (pi / 180)) \<noteq> 0"
    using cos_deg_pos[OF assms(1,2)] by simp
  then show ?thesis
    by (simp add: generate_unfold directions_eq bearing_point_real spec_bearings_def)
qed

text \<open>The claim at the equator, with a radius of 111 km (one degree).\<close>

theorem generateCandidatePoints_nine_points_witness:
  "generateCandidatePoints (Fin 0) (Fin 0) (Fin 111) =
     \<lparr>lat = Fin 0, lon = Fin 0\<rparr> # map (spec_candidate 0 0 111) spec_bearings \<and>
   length (generateCandidatePoints (Fin 0) (Fin 0) (Fin 111)) = 9"
  using generateCandidatePoints_nine_points[of 0 111 0] by (simp add: spec_bearings_def)

text \<open>
  Claim C3. The candidate generated for the bearing \<open>45 * i\<close> degrees (it stands
  at index \<open>i + 1\<close>) is the origin moved by \<open>latDelta * cos theta\<close> in latitude
  and by \<open>lonDelta * sin theta\<close> in longitude, where \<open>latDelta\<close> is the radius over
  111 and \<open>lonDelta\<close> is the radius over 111 times the cosine of the latitude in
  radians. The quotient that defines \<open>lonDelta\<close> exists when that cosine is not
  zero.
\<close>

theorem generateCandidatePoints_offset_formula:
  assumes "cos (la * (pi / 180)) \<noteq> 0" "i < 8"
  shows "generateCandidatePoints (Fin la) (Fin lo) (Fin r) ! Suc i =
         \<lparr>lat = Fin (la + r / 111 * cos (45 * real i * (pi / 180))),
          lon = Fin (lo + r / (111 * cos (la * (pi / 180))) * sin (45 * real i * (pi / 180)))\<rparr>"
proof -
  have "generateCandidatePoints (Fin la) (Fin lo) (Fin r) ! Suc i
        = bearing_point (Fin la) (Fin lo) (Fin r) (directions ! i)"
    using assms(2) by (simp add: generate_unfold length_directions)
  also have "directions ! i = Fin (45 * real i)"
    using assms(2) by (rule bearing_nth)
  finally show ?thesis using assms(1)
    by (simp add: bearing_point_real spec_candidate_def Let_def)
qed

text \<open>The claim at the equator, for the bearing 0 (index 1): one degree to the north of
  the origin.\<close>

theorem generateCandidatePoints_offset_formula_witness:
  "generateCandidatePoints (Fin 0) (Fin 0) (Fin 111) ! 1 = \<lparr>lat = Fin 1, lon = Fin 0\<rparr>"
  using generateCandidatePoints_offset_formula[of 0 0 0 111] by simp

section \<open>Properties of the site evaluator\<close>

lemma get_readable: "readable v \<Longrightarrow> get v k = Inr (field v k)"
  by (cases v) (simp_all add: readable_def field_def)

lemma sum_hours_readable:
  assumes "\<forall>h \<in> set hs. readable h"
  shows "sum_hours rt hs (d, p) =
           Inr (foldl jadd d (map (hour_dryness rt) hs), foldl jadd p (map (hour_precip rt) hs))"
  using assms
  by (induction hs arbitrary: d p)
     (simp_all add: get_readable bind_def hour_dryness_def hour_precip_def)

lemma jadd_NaN_right: "jadd x NaN = NaN"
  by (cases x) simp_all

lemma foldl_jadd_NaN_start: "foldl jadd NaN xs = NaN"
  by (induction xs) simp_all

lemma foldl_jadd_NaN: "NaN \<in> set xs \<Longrightarrow> foldl jadd d xs = NaN"
  by (induction xs arbitrary: d) (auto simp: jadd_NaN_right foldl_jadd_NaN_start)

lemma foldl_jadd_Fin: "foldl jadd (Fin d) (map Fin rs) = Fin (d + sum_list rs)"
  by (induction rs arbitrary: d) (simp_all add: add.assoc)

lemma evaluate_series_readable:
  assumes "\<forall>h \<in> set hs. readable h"
  shows "evaluate_series rt hs =
           Inr (jdiv (foldl jadd (Fin 0) (map (hour_dryness rt) hs)) (Fin (real (length hs))),
                foldl jadd (Fin 0) (map (hour_precip rt) hs))"
  by (simp add: evaluate_series_def sum_hours_readable[OF assms] bind_def Let_def)

text \<open>The error of line 169 when \<^verbatim>\<open>hourly\<close> is not an array.\<close>

lemma hourly_series_not_array:
  assumes "get data ''weather'' = Inr w" "truthy w" "first w = Inr day" "truthy day"
      and "get day ''hourly'' = Inr h" "\<forall>hs. h \<noteq> JArr hs"
  shows "hourly_series data = Inl IncompleteData"
  using assms by (cases h) (simp_all add: hourly_series_def bind_def)

text \<open>The mean and the sum for a series that is not empty and whose values are all
  finite numbers.\<close>

lemma evaluate_series_mean:
  assumes "hs \<noteq> []" "\<forall>h \<in> set hs. readable h"
      and "map (hour_dryness rt) hs = map Fin ds" "map (hour_precip rt) hs = map Fin ps"
  shows "evaluate_series rt hs = Inr (Fin (sum_list ds / real (length hs)), Fin (sum_list ps))"
  using assms(1)
  by (simp add: evaluate_series_readable[OF assms(2)] assms(3,4) foldl_jadd_Fin)

lemma evaluate_series_empty: "evaluate_series rt [] = Inr (NaN, Fin 0)"
  by (simp add: evaluate_series_def bind_def of_sign_def)

text \<open>
  Claim C5 at an empty series. The response passes the test of line 168, since an
  empty array is an array; the sum of no dryness chances is 0 and the length is 0,
  so the mean is \<open>0 / 0\<close>. \<^verbatim>\<open>getWeather\<close> returns an evaluation whose dryness is NaN
  and throws nothing.
\<close>

theorem getWeather_empty_series_returns_NaN:
  "getWeather rt empty_series_service la lo =
     Inr \<lparr>weather.dryness = NaN, weather.precip = Fin 0, weather.nearest = JStr []\<rparr>"
  by (simp add: getWeather_def empty_series_service_def empty_series_body_def hourly_series_def
      evaluate_series_empty nearest_name_def bind_def)

text \<open>Whatever the reading of a property throws is a \<^verbatim>\<open>TypeError\<close>.\<close>

lemma get_error: "get v k = Inl e \<Longrightarrow> e = TypeError"
  by (cases v) simp_all

lemma first_error: "first v = Inl e \<Longrightarrow> e = TypeError"
  by (cases v rule: first.cases) (simp_all split: option.splits)

lemma nearest_name_error:
  assumes "nearest_name data = Inl e"
  shows "e = TypeError"
  using assms
  by (auto simp: nearest_name_def bind_def split: sum.splits jsval.splits if_splits
      dest: get_error first_error)

text \<open>
  Claim C6, as the program has it. Let the response carry an hourly series whose
  hours are all readable (none is \<^verbatim>\<open>null\<close> or \<^verbatim>\<open>undefined\<close>), and let one of them have
  a dryness chance or a precipitation that the coercion turns into NaN. Then the
  evaluation of the series does not fail: the dryness score is NaN in the first
  case and the total precipitation is NaN in the second, so the value is not
  counted as zero and no data error is raised for it. \<^verbatim>\<open>getWeather\<close> returns the
  evaluation with exactly these scores. The one exception has nothing to do with
  the hourly values: where reading the name of the nearest place (lines 181 to
  184) throws a \<^verbatim>\<open>TypeError\<close>, \<^verbatim>\<open>getWeather\<close> throws it.
\<close>

theorem getWeather_unparsable_hour_gives_NaN:
  assumes "net la lo = Response True (Some data)"
      and "hourly_series data = Inr hs"
      and "\<forall>h \<in> set hs. readable h"
      and "h \<in> set hs"
  shows "\<exists>d p. evaluate_series rt hs = Inr (d, p) \<and>
             (hour_dryness rt h = NaN \<longrightarrow> d = NaN) \<and>
             (hour_precip rt h = NaN \<longrightarrow> p = NaN) \<and>
             ((\<exists>n. nearest_name data = Inr n \<and>
                   getWeather rt net la lo =
                     Inr \<lparr>weather.dryness = d, weather.precip = p, weather.nearest = n\<rparr>) \<or>
              (nearest_name data = Inl TypeError \<and> getWeather rt net la lo = Inl TypeError))"
proof -
  let ?d = "jdiv (foldl jadd (Fin 0) (map (hour_dryness rt) hs)) (Fin (real (length hs)))"
  let ?p = "foldl jadd (Fin 0) (map (hour_precip rt) hs)"
  have ev: "evaluate_series rt hs = Inr (?d, ?p)"
    by (rule evaluate_series_readable[OF assms(3)])
  have d: "hour_dryness rt h = NaN \<Longrightarrow> ?d = NaN"
  proof -
    assume "hour_dryness rt h = NaN"
    with assms(4) have "NaN \<in> set (map (hour_dryness rt) hs)" by force
    then show "?d = NaN" by (simp add: foldl_jadd_NaN)
  qed
  have p: "hour_precip rt h = NaN \<Longrightarrow> ?p = NaN"
  proof -
    assume "hour_precip rt h = NaN"
    with assms(4) have "NaN \<in> set (map (hour_precip rt) hs)" by force
    then show "?p = NaN" by (simp add: foldl_jadd_NaN)
  qed
  have gw: "getWeather rt net la lo =
              (case nearest_name data of Inl e \<Rightarrow> Inl e
               | Inr n \<Rightarrow> Inr \<lparr>weather.dryness = ?d, weather.precip = ?p, weather.nearest = n\<rparr>)"
    by (simp add: getWeather_def assms(1,2) ev bind_def)
  have last: "(\<exists>n. nearest_name data = Inr n \<and>
                   getWeather rt net la lo =
                     Inr \<lparr>weather.dryness = ?d, weather.precip = ?p, weather.nearest = n\<rparr>) \<or>
              (nearest_name data = Inl TypeError \<and> getWeather rt net la lo = Inl TypeError)"
  proof (cases "nearest_name data")
    case (Inl e)
    then have "e = TypeError" by (rule nearest_name_error)
    with Inl gw show ?thesis by simp
  next
    case (Inr n)
    with gw show ?thesis by simp
  qed
  from ev d p last show ?thesis by blast
qed

lemma unparsable_series:
  "hourly_series unparsable_body = Inr
      [JObj [(''chanceofremdry'', JStr ''85''), (''precipMM'', JStr ''0.1'')],
       JObj [(''chanceofremdry'', JStr ''n/a''), (''precipMM'', JStr ''0.3'')]]"
  by (simp add: unparsable_body_def hourly_series_def bind_def)

lemma unparsable_no_place_series:
  "hourly_series unparsable_no_place_body = Inr
      [JObj [(''chanceofremdry'', JStr ''85''), (''precipMM'', JStr ''0.1'')],
       JObj [(''chanceofremdry'', JStr ''n/a''), (''precipMM'', JStr ''0.3'')]]"
  by (simp add: unparsable_no_place_body_def hourly_series_def bind_def)

text \<open>
  The claim at a response of two hours whose second dryness chance reads \<^verbatim>\<open>n/a\<close>:
  once with no nearest area, where the evaluation is returned, and once with a
  nearest area whose list of names is empty, where the \<^verbatim>\<open>TypeError\<close> of line 183 is
  thrown.
\<close>

theorem getWeather_unparsable_hour_gives_NaN_witness:
  "(\<exists>w. getWeather js unparsable_service (Fin 52.52) (Fin 13.405) = Inr w \<and>
        weather.dryness w = NaN) \<and>
   getWeather js unparsable_no_place_service (Fin 52.52) (Fin 13.405) = Inl TypeError"
proof -
  let ?g = "JObj [(''chanceofremdry'', JStr ''85''), (''precipMM'', JStr ''0.1'')]"
  let ?h = "JObj [(''chanceofremdry'', JStr ''n/a''), (''precipMM'', JStr ''0.3'')]"
  have 1: "unparsable_service (Fin 52.52) (Fin 13.405) = Response True (Some unparsable_body)"
    by (simp add: unparsable_service_def)
  have 2: "unparsable_no_place_service (Fin 52.52) (Fin 13.405) =
             Response True (Some unparsable_no_place_body)"
    by (simp add: unparsable_no_place_service_def)
  have 3: "\<forall>h \<in> set [?g, ?h]. readable h"
    by (simp add: readable_def)
  have 4: "?h \<in> set [?g, ?h]"
    by simp
  have 5: "hour_dryness js ?h = NaN"
    by (simp add: hour_dryness_def field_def js_simps)
  have 6: "nearest_name unparsable_body = Inr (JStr [])"
    by (simp add: nearest_name_def unparsable_body_def bind_def)
  have 7: "nearest_name unparsable_no_place_body = Inl TypeError"
    by (simp add: nearest_name_def unparsable_no_place_body_def bind_def)
  from getWeather_unparsable_hour_gives_NaN[where net = unparsable_service and la = "Fin 52.52" and lo = "Fin 13.405"
        and rt = js, OF 1 unparsable_series 3 4] 5 6
  have a: "\<exists>w. getWeather js unparsable_service (Fin 52.52) (Fin 13.405) = Inr w \<and>
        weather.dryness w = NaN"
    by auto
  from getWeather_unparsable_hour_gives_NaN[where net = unparsable_no_place_service and la = "Fin 52.52" and lo = "Fin 13.405"
        and rt = js, OF 2 unparsable_no_place_series 3 4] 7
  have b: "getWeather js unparsable_no_place_service (Fin 52.52) (Fin 13.405) = Inl TypeError"
    by auto
  from a b show ?thesis by simp
qed

text \<open>
  Claim C6 as the specification states it fails: for the response of two hours
  whose second dryness chance reads \<^verbatim>\<open>n/a\<close>, \<^verbatim>\<open>getWeather\<close> returns a result with the
  dryness score NaN instead of failing.
\<close>

theorem getWeather_unparsable_not_fatal:
  "getWeather js unparsable_service (Fin 52.52) (Fin 13.405) =
     Inr \<lparr>weather.dryness = NaN, weather.precip = Fin 0.4, weather.nearest = JStr []\<rparr>"
  by (simp add: unparsable_service_def unparsable_body_def getWeather_simps js_simps)

section \<open>Properties of the selector\<close>

lemma collect_results:
  "results (collect rt net pts st) = results st @ List.map_filter (site_evaluation rt net) pts"
  by (induction pts arbitrary: st)
     (simp_all add: List.map_filter_simps site_evaluation_def split: sum.splits)

lemma collect_requested: "requested (collect rt net pts st) = requested st @ pts"
  by (induction pts arbitrary: st) (simp_all split: sum.splits)

lemma collect_warnings:
  "map fst (warnings (collect rt net pts st)) = map fst (warnings st) @ filter (fails rt net) pts"
  by (induction pts arbitrary: st) (simp_all add: fails_def split: sum.splits)

lemma site_evaluation_None: "site_evaluation rt net pt = None \<longleftrightarrow> fails rt net pt"
  by (simp add: site_evaluation_def fails_def split: sum.splits)

lemma site_of_evaluation: "site_evaluation rt net pt = Some e \<Longrightarrow> site_of e = pt"
  by (auto simp: site_evaluation_def site_of_def split: sum.splits)

lemma map_filter_sites:
  "map site_of (List.map_filter (site_evaluation rt net) pts) =
     filter (\<lambda>pt. \<not> fails rt net pt) pts"
proof (induction pts)
  case Nil
  show ?case by (simp add: List.map_filter_simps)
next
  case (Cons pt pts)
  show ?case
  proof (cases "site_evaluation rt net pt")
    case None
    then have "fails rt net pt" by (simp add: site_evaluation_None[symmetric])
    with None Cons show ?thesis by (simp add: List.map_filter_simps)
  next
    case (Some e)
    then have "\<not> fails rt net pt" using site_evaluation_None[of rt net pt] by simp
    with Some Cons show ?thesis
      by (simp add: List.map_filter_simps site_of_evaluation)
  qed
qed

lemma map_filter_Nil_iff: "List.map_filter f xs = [] \<longleftrightarrow> (\<forall>x \<in> set xs. f x = None)"
  by (induction xs) (auto simp: List.map_filter_simps split: option.splits)

text \<open>
  Claim C10. The loop of \<^verbatim>\<open>findBestWeather\<close> leaves in \<open>results\<close>, before the sort,
  the evaluations of the candidates whose \<^verbatim>\<open>getWeather\<close> returned, one for each and
  in the order of the candidates: the sites of the results are the candidate list
  with the failing candidates left out.
\<close>

theorem collect_results_in_candidate_order:
  "results (collect rt net points empty_search) =
     List.map_filter (site_evaluation rt net) points \<and>
   map site_of (results (collect rt net points empty_search)) =
     filter (\<lambda>pt. \<not> fails rt net pt) points"
  by (simp add: collect_results map_filter_sites empty_search_def)

text \<open>The example service: four of the five points are evaluated, in their order.\<close>

theorem collect_results_in_candidate_order_witness:
  "map site_of (results (collect js tie_service tie_points empty_search)) =
     [\<lparr>lat = Fin 0, lon = Fin 0\<rparr>, \<lparr>lat = Fin 1, lon = Fin 0\<rparr>,
      \<lparr>lat = Fin 2, lon = Fin 0\<rparr>, \<lparr>lat = Fin 3, lon = Fin 0\<rparr>]"
proof -
  have "filter (\<lambda>pt. \<not> fails js tie_service pt) tie_points =
     [\<lparr>lat = Fin 0, lon = Fin 0\<rparr>, \<lparr>lat = Fin 1, lon = Fin 0\<rparr>,
      \<lparr>lat = Fin 2, lon = Fin 0\<rparr>, \<lparr>lat = Fin 3, lon = Fin 0\<rparr>]"
    by (simp add: fails_def tie_points_def tie_service_def one_hour_def
        getWeather_simps js_simps)
  with collect_results_in_candidate_order[of js tie_service tie_points, THEN conjunct2]
  show ?thesis by simp
qed

subsection \<open>The order of numeric evaluations\<close>

lemma num_less_irrefl: "\<not> num_less x x"
  by (cases x) simp_all

lemma num_less_trans: "num_less x y \<Longrightarrow> num_less y z \<Longrightarrow> num_less x z"
  by (cases x; cases y; cases z) simp_all

lemma num_less_asym: "num_less x y \<Longrightarrow> \<not> num_less y x"
  by (cases x; cases y) simp_all

lemma num_less_total: "x \<noteq> NaN \<Longrightarrow> y \<noteq> NaN \<Longrightarrow> num_less x y \<or> x = y \<or> num_less y x"
  by (cases x; cases y) auto

lemma positive_jsub: "x \<noteq> NaN \<Longrightarrow> y \<noteq> NaN \<Longrightarrow> positive (jsub x y) = num_less y x"
  by (cases x; cases y) (simp_all add: positive_def jsub_def)

text \<open>On numeric evaluations the comparison of lines 143 to 146 is greater than zero
  exactly where its second argument is the better one.\<close>

lemma positive_compare:
  assumes "numeric x" "numeric y"
  shows "positive (compare x y) = better y x"
proof (cases "dryness y = dryness x")
  case True
  with assms show ?thesis
    by (simp add: compare_def strict_neq_def numeric_def better_def positive_jsub num_less_irrefl)
next
  case False
  with assms show ?thesis
    by (auto simp: compare_def strict_neq_def numeric_def better_def positive_jsub)
qed

lemma better_irrefl: "\<not> better a a"
  by (simp add: better_def num_less_irrefl)

lemma better_asym: "better a b \<Longrightarrow> \<not> better b a"
  by (auto simp: better_def num_less_irrefl dest: num_less_asym)

lemma not_better_trans:
  assumes "numeric a" "numeric b" "numeric c" "\<not> better a b" "\<not> better b c"
  shows "\<not> better a c"
proof
  assume ac: "better a c"
  have dab: "dryness a = dryness b \<or> num_less (dryness a) (dryness b)"
    using assms(1,2,4) num_less_total[of "dryness a" "dryness b"]
    by (auto simp: better_def numeric_def)
  have dbc: "dryness b = dryness c \<or> num_less (dryness b) (dryness c)"
    using assms(2,3,5) num_less_total[of "dryness b" "dryness c"]
    by (auto simp: better_def numeric_def)
  from ac have "num_less (dryness c) (dryness a) \<or>
                (dryness a = dryness c \<and> num_less (precip a) (precip c))"
    by (simp add: better_def)
  then show False
  proof
    assume "num_less (dryness c) (dryness a)"
    with dab dbc show False
      by (metis num_less_trans num_less_asym num_less_irrefl)
  next
    assume h: "dryness a = dryness c \<and> num_less (precip a) (precip c)"
    with dab dbc have eq: "dryness a = dryness b" "dryness b = dryness c"
      by (metis num_less_trans num_less_asym num_less_irrefl)+
    have pab: "precip a = precip b \<or> num_less (precip b) (precip a)"
      using assms(1,2,4) eq num_less_total[of "precip a" "precip b"]
      by (auto simp: better_def numeric_def)
    have pbc: "precip b = precip c \<or> num_less (precip c) (precip b)"
      using assms(2,3,5) eq num_less_total[of "precip b" "precip c"]
      by (auto simp: better_def numeric_def)
    from h pab pbc show False
      by (metis num_less_trans num_less_asym num_less_irrefl)
  qed
qed

text \<open>A list has at most one winner.\<close>

lemma winner_unique:
  assumes "winner_at rs i" "winner_at rs k"
  shows "i = k"
proof (rule ccontr)
  assume "i \<noteq> k"
  then consider "i < k" | "k < i" by linarith
  then show False
  proof cases
    case 1
    with assms(2) have "better (rs ! k) (rs ! i)"
      by (simp add: winner_at_def)
    moreover from assms have "\<not> better (rs ! k) (rs ! i)"
      by (simp add: winner_at_def)
    ultimately show False by simp
  next
    case 2
    with assms(1) have "better (rs ! i) (rs ! k)"
      by (simp add: winner_at_def)
    moreover from assms have "\<not> better (rs ! i) (rs ! k)"
      by (simp add: winner_at_def)
    ultimately show False by simp
  qed
qed

text \<open>Every stable sort of numeric evaluations puts the winner first, whatever its
  algorithm.\<close>

lemma stable_order_head_wins:
  assumes "stable_order compare rs p" "\<forall>e \<in> set rs. numeric e" "rs \<noteq> []"
  shows "winner_at rs (p ! 0)"
proof -
  from assms(1) have len: "length p = length rs"
    by (metis stable_order_def distinct_card card_lessThan)
  with assms(3) have p0: "0 < length p" by simp
  have inb: "p ! l < length rs" if "l < length p" for l
  proof -
    from that have "p ! l \<in> set p" by simp
    with assms(1) show ?thesis by (simp add: stable_order_def)
  qed
  from inb[OF p0] have i: "p ! 0 < length rs" .
  have ord: "\<not> better (rs ! (p ! l)) (rs ! (p ! k)) \<and>
             (\<not> better (rs ! (p ! k)) (rs ! (p ! l)) \<longrightarrow> p ! k < p ! l)"
    if "l < length p" "k < l" for l k
  proof -
    from that have "k < length p" by simp
    with that(1) inb assms(2) have "numeric (rs ! (p ! k))" "numeric (rs ! (p ! l))"
      by simp_all
    then have "positive (compare (rs ! (p ! k)) (rs ! (p ! l))) = better (rs ! (p ! l)) (rs ! (p ! k))"
      and "positive (compare (rs ! (p ! l)) (rs ! (p ! k))) = better (rs ! (p ! k)) (rs ! (p ! l))"
      by (simp_all add: positive_compare)
    with assms(1) that show ?thesis by (simp add: stable_order_def)
  qed
  have idx: "\<exists>l < length p. p ! l = j" if "j < length rs" for j
    using that assms(1) by (metis in_set_conv_nth lessThan_iff stable_order_def)
  have nb: "\<not> better (rs ! j) (rs ! (p ! 0))" if "j < length rs" for j
  proof -
    from idx[OF that] obtain l where l: "l < length p" "p ! l = j" by blast
    show ?thesis
    proof (cases l)
      case 0
      with l show ?thesis by (simp add: better_irrefl)
    next
      case (Suc m)
      with l ord[of l 0] have "\<not> better (rs ! (p ! l)) (rs ! (p ! 0))"
        by simp
      with l show ?thesis by simp
    qed
  qed
  have bt: "better (rs ! (p ! 0)) (rs ! j)" if "j < p ! 0" for j
  proof -
    from that i have "j < length rs" by simp
    from idx[OF this] obtain l where l: "l < length p" "p ! l = j" by blast
    have "l \<noteq> 0"
    proof
      assume "l = 0"
      with l(2) that show False by simp
    qed
    then have "0 < l" by simp
    with l(1) ord[of l 0] have "\<not> better (rs ! (p ! 0)) (rs ! (p ! l)) \<longrightarrow> p ! 0 < p ! l"
      by simp
    with l(2) that show ?thesis by auto
  qed
  from i nb bt show ?thesis by (simp add: winner_at_def)
qed

subsection \<open>The head of the sorted results\<close>

lemma insert_sorted_not_Nil: "insert_sorted cmp x ys \<noteq> []"
  by (cases ys) simp_all

lemma set_insert_sorted: "set (insert_sorted cmp x ys) = insert x (set ys)"
  by (induction ys) auto

lemma set_Array_sort: "set (Array_sort cmp xs) = set xs"
  by (induction xs) (simp_all add: Array_sort_def set_insert_sorted)

lemma Array_sort_Cons: "Array_sort cmp (x # xs) = insert_sorted cmp x (Array_sort cmp xs)"
  by (simp add: Array_sort_def)

lemma Array_sort_Nil_iff: "Array_sort cmp xs = [] \<longleftrightarrow> xs = []"
  by (cases xs) (simp_all add: Array_sort_def insert_sorted_not_Nil)

lemma hd_sort_winner:
  assumes "\<forall>e \<in> set rs. numeric e" "rs \<noteq> []"
  shows "\<exists>i. winner_at rs i \<and> hd (Array_sort compare rs) = rs ! i"
  using assms
proof (induction rs)
  case Nil
  then show ?case by simp
next
  case (Cons x xs)
  show ?case
  proof (cases "xs = []")
    case True
    then have "winner_at (x # xs) 0 \<and> hd (Array_sort compare (x # xs)) = (x # xs) ! 0"
      by (simp add: winner_at_def better_irrefl Array_sort_def)
    then show ?thesis by blast
  next
    case False
    from Cons.prems have numx: "numeric x" and numxs: "\<forall>e \<in> set xs. numeric e" by simp_all
    from Cons.IH[OF numxs False] obtain i where
      w: "winner_at xs i" and h: "hd (Array_sort compare xs) = xs ! i" by blast
    let ?b = "xs ! i"
    from w have ilen: "i < length xs" by (simp add: winner_at_def)
    then have numb: "numeric ?b" using numxs by simp
    from False obtain y zs where srt: "Array_sort compare xs = y # zs"
      by (cases "Array_sort compare xs") (simp_all add: Array_sort_Nil_iff)
    with h have y: "y = ?b" by simp
    have hd_eq: "hd (Array_sort compare (x # xs)) = (if better ?b x then ?b else x)"
      by (simp add: Array_sort_Cons srt y positive_compare[OF numx numb])
    show ?thesis
    proof (cases "better ?b x")
      case True
      have "winner_at (x # xs) (Suc i)"
        unfolding winner_at_def
      proof (intro conjI allI impI)
        show "Suc i < length (x # xs)" using ilen by simp
      next
        fix j assume "j < length (x # xs)"
        then show "\<not> better ((x # xs) ! j) ((x # xs) ! Suc i)"
          using w True better_asym by (cases j) (auto simp: winner_at_def)
      next
        fix j assume "j < Suc i"
        then show "better ((x # xs) ! Suc i) ((x # xs) ! j)"
          using w True by (cases j) (auto simp: winner_at_def)
      qed
      with hd_eq True show ?thesis by (intro exI[of _ "Suc i"]) simp
    next
      case nb: False
      have "winner_at (x # xs) 0"
        unfolding winner_at_def
      proof (intro conjI allI impI)
        show "0 < length (x # xs)" by simp
      next
        fix j assume j: "j < length (x # xs)"
        show "\<not> better ((x # xs) ! j) ((x # xs) ! 0)"
        proof (cases j)
          case 0
          then show ?thesis by (simp add: better_irrefl)
        next
          case (Suc k)
          with j have k: "k < length xs" by simp
          then have "numeric (xs ! k)" using numxs by simp
          moreover have "\<not> better (xs ! k) ?b" using w k by (simp add: winner_at_def)
          ultimately have "\<not> better (xs ! k) x"
            using not_better_trans[OF _ numb numx _ nb] by blast
          with Suc show ?thesis by simp
        qed
      next
        fix j :: nat assume "j < 0"
        then show "better ((x # xs) ! 0) ((x # xs) ! j)" by simp
      qed
      with hd_eq nb show ?thesis by (intro exI[of _ 0]) simp
    qed
  qed
qed

lemma findBestWeather_eq:
  "findBestWeather rt net points =
     (case Array_sort compare (results (collect rt net points empty_search)) of
        [] \<Rightarrow> None | best # rest \<Rightarrow> Some best)"
  by (simp add: findBestWeather_def Let_def)

lemma findBestWeather_None_iff:
  "findBestWeather rt net points = None \<longleftrightarrow> (\<forall>pt \<in> set points. fails rt net pt)"
proof -
  have "findBestWeather rt net points = None \<longleftrightarrow>
          results (collect rt net points empty_search) = []"
    using Array_sort_Nil_iff[of compare "results (collect rt net points empty_search)"]
    by (cases "Array_sort compare (results (collect rt net points empty_search))")
       (simp_all add: findBestWeather_eq)
  then show ?thesis
    by (simp add: collect_results empty_search_def map_filter_Nil_iff site_evaluation_None)
qed

lemma findBestWeather_Some_hd:
  assumes "results (collect rt net points empty_search) \<noteq> []"
  shows "findBestWeather rt net points =
           Some (hd (Array_sort compare (results (collect rt net points empty_search))))"
  using assms Array_sort_Nil_iff[of compare "results (collect rt net points empty_search)"]
  by (cases "Array_sort compare (results (collect rt net points empty_search))")
     (simp_all add: findBestWeather_eq)

lemma findBestWeather_member:
  assumes "findBestWeather rt net points = Some b"
  shows "\<exists>pt \<in> set points. site_evaluation rt net pt = Some b"
proof -
  from assms have "b \<in> set (Array_sort compare (results (collect rt net points empty_search)))"
    by (auto simp: findBestWeather_eq split: list.splits)
  then have "b \<in> set (List.map_filter (site_evaluation rt net) points)"
    by (simp add: set_Array_sort collect_results empty_search_def)
  then show ?thesis by (auto simp: List.map_filter_def)
qed

lemma showResult_NoSite: "showResult best place radiusKm = NoSiteCard \<longleftrightarrow> best = None"
  by (cases best) (simp_all add: showResult_def)

lemma tie_collect: "results (collect js tie_service tie_points empty_search) = tie_results"
  by (simp add: tie_points_def tie_results_def tie_service_def one_hour_def empty_search_def
      getWeather_simps js_simps)

text \<open>
  Claim C1, as the program has it. Let \<open>rs\<close> be the evaluations that
  \<^verbatim>\<open>findBestWeather\<close> has collected, all of them numeric and at least one. Then \<^verbatim>\<open>findBestWeather\<close> returns the winner of
  \<open>rs\<close>: no evaluation of the list has a higher dryness score, or the same dryness
  score and a lower total precipitation, and every evaluation listed before it is
  strictly worse in this order. So the dryness score decides first, the total
  precipitation second, and among evaluations that agree in both the one listed
  first is returned.
\<close>

theorem findBestWeather_selects_first_best:
  assumes "rs = results (collect rt net points empty_search)"
      and "\<forall>e \<in> set rs. numeric e" and "rs \<noteq> []"
  shows "\<exists>i. winner_at rs i \<and> findBestWeather rt net points = Some (rs ! i)"
proof -
  from hd_sort_winner[OF assms(2,3)] obtain i where
    "winner_at rs i" "hd (Array_sort compare rs) = rs ! i" by blast
  then show ?thesis using findBestWeather_Some_hd assms(1,3) by auto
qed

text \<open>
  The example service: of four evaluations three have the dryness score 80, two of
  these the lower precipitation of 0.5 mm, and the first of the two is returned.
\<close>

theorem findBestWeather_selects_first_best_witness:
  "\<exists>i. winner_at tie_results i \<and>
       findBestWeather js tie_service tie_points = Some (tie_results ! i) \<and>
       tie_results ! i =
         \<lparr>lat = Fin 1, lon = Fin 0, dryness = Fin 80, precip = Fin 0.5, nearest = JStr []\<rparr>"
proof -
  have num: "\<forall>e \<in> set tie_results. numeric e"
    by (simp add: tie_results_def numeric_def)
  have ne: "tie_results \<noteq> []" by (simp add: tie_results_def)
  from findBestWeather_selects_first_best[OF tie_collect[symmetric] num ne] obtain i where
    i: "winner_at tie_results i" "findBestWeather js tie_service tie_points = Some (tie_results ! i)"
    by blast
  have "findBestWeather js tie_service tie_points =
          Some \<lparr>lat = Fin 1, lon = Fin 0, dryness = Fin 80, precip = Fin 0.5, nearest = JStr []\<rparr>"
    by (simp add: findBestWeather_def Let_def tie_collect)
       (simp add: tie_results_def Array_sort_def compare_def strict_neq_def jsub_def positive_def)
  with i show ?thesis by auto
qed

text \<open>
  Claim C1 as the specification states it, for every list of evaluations, fails.
  Of three candidates the first has the dryness score 80, the second the score NaN
  (its hour has no dryness chance) and the third the score 90. Every comparison
  with the NaN score reads as zero, the sort leaves the results as they are, and
  \<^verbatim>\<open>findBestWeather\<close> returns the site with 80 although the site with 90 is better.
\<close>

theorem findBestWeather_NaN_hides_better_site:
  "results (collect js gap_service gap_points empty_search) =
     [\<lparr>lat = Fin 0, lon = Fin 0, dryness = Fin 80, precip = Fin 0, nearest = JStr []\<rparr>,
      \<lparr>lat = Fin 1, lon = Fin 0, dryness = NaN, precip = Fin 0, nearest = JStr []\<rparr>,
      \<lparr>lat = Fin 2, lon = Fin 0, dryness = Fin 90, precip = Fin 0, nearest = JStr []\<rparr>] \<and>
   findBestWeather js gap_service gap_points =
     Some \<lparr>lat = Fin 0, lon = Fin 0, dryness = Fin 80, precip = Fin 0, nearest = JStr []\<rparr> \<and>
   better \<lparr>lat = Fin 2, lon = Fin 0, dryness = Fin 90, precip = Fin 0, nearest = JStr []\<rparr>
          \<lparr>lat = Fin 0, lon = Fin 0, dryness = Fin 80, precip = Fin 0, nearest = JStr []\<rparr>"
proof -
  have c: "results (collect js gap_service gap_points empty_search) =
     [\<lparr>lat = Fin 0, lon = Fin 0, dryness = Fin 80, precip = Fin 0, nearest = JStr []\<rparr>,
      \<lparr>lat = Fin 1, lon = Fin 0, dryness = NaN, precip = Fin 0, nearest = JStr []\<rparr>,
      \<lparr>lat = Fin 2, lon = Fin 0, dryness = Fin 90, precip = Fin 0, nearest = JStr []\<rparr>]"
    by (simp add: gap_points_def gap_service_def one_hour_def missing_field_body_def
        empty_search_def getWeather_simps js_simps)
  have f: "findBestWeather js gap_service gap_points =
     Some \<lparr>lat = Fin 0, lon = Fin 0, dryness = Fin 80, precip = Fin 0, nearest = JStr []\<rparr>"
    by (simp add: findBestWeather_def Let_def c)
       (simp add: Array_sort_def compare_def strict_neq_def jsub_def positive_def)
  have b: "better \<lparr>lat = Fin 2, lon = Fin 0, dryness = Fin 90, precip = Fin 0, nearest = JStr []\<rparr>
          \<lparr>lat = Fin 0, lon = Fin 0, dryness = Fin 80, precip = Fin 0, nearest = JStr []\<rparr>"
    by (simp add: better_def)
  from c f b show ?thesis by simp
qed

text \<open>
  Claim C4. Whatever \<^verbatim>\<open>getWeather\<close> throws for a candidate, \<^verbatim>\<open>findBestWeather\<close> goes
  on: every candidate is requested, each failing candidate is logged and left out
  of the results, and the others are all in the results. The result is absent
  exactly when every candidate fails, and for an absent result \<^verbatim>\<open>showResult\<close> shows
  the card that no site was found, which is not the error card.
\<close>

theorem findBestWeather_failures_absorbed:
  "requested (collect rt net points empty_search) = points \<and>
   map fst (warnings (collect rt net points empty_search)) = filter (fails rt net) points \<and>
   map site_of (results (collect rt net points empty_search)) =
     filter (\<lambda>pt. \<not> fails rt net pt) points \<and>
   (findBestWeather rt net points = None \<longleftrightarrow> (\<forall>pt \<in> set points. fails rt net pt)) \<and>
   (showResult (findBestWeather rt net points) place radiusKm = NoSiteCard \<longleftrightarrow>
      (\<forall>pt \<in> set points. fails rt net pt))"
  by (simp add: collect_requested collect_warnings collect_results map_filter_sites
      empty_search_def findBestWeather_None_iff showResult_NoSite)

text \<open>Without a connection every candidate fails and no site is found; with the example
  service one candidate fails and a site is found.\<close>

theorem findBestWeather_failures_absorbed_witness:
  "findBestWeather js offline tie_points = None \<and>
   requested (collect js offline tie_points empty_search) = tie_points \<and>
   showResult (findBestWeather js offline tie_points) ''Berlin'' (Fin 10) = NoSiteCard \<and>
   findBestWeather js tie_service tie_points \<noteq> None"
proof -
  have a: "\<forall>pt \<in> set tie_points. fails js offline pt"
    by (simp add: fails_def getWeather_def offline_def)
  have b: "\<not> (\<forall>pt \<in> set tie_points. fails js tie_service pt)"
    by (simp add: fails_def tie_points_def tie_service_def one_hour_def
        getWeather_simps js_simps)
  from findBestWeather_failures_absorbed[of js offline tie_points "''Berlin''" "Fin 10"]
       findBestWeather_failures_absorbed[of js tie_service tie_points "''Berlin''" "Fin 10"] a b
  show ?thesis by (simp add: showResult_def)
qed

text \<open>
  Claim C9, as the program has it. \<^verbatim>\<open>findBestWeather\<close> checks no score: what it
  returns is the evaluation of one of the candidates, as \<^verbatim>\<open>getWeather\<close> returned it.
  So the returned evaluation has a numeric dryness score whenever \<^verbatim>\<open>getWeather\<close>
  returns a numeric dryness score for every candidate for which it returns.
\<close>

theorem findBestWeather_numeric_if_evaluations_numeric:
  assumes "\<forall>pt \<in> set points. \<forall>w. getWeather rt net (lat pt) (lon pt) = Inr w
             \<longrightarrow> weather.dryness w \<noteq> NaN"
      and "findBestWeather rt net points = Some b"
  shows "dryness b \<noteq> NaN \<and> (\<exists>pt \<in> set points. site_evaluation rt net pt = Some b)"
proof -
  from findBestWeather_member[OF assms(2)] obtain pt where
    pt: "pt \<in> set points" "site_evaluation rt net pt = Some b" by blast
  then obtain w where
    w: "getWeather rt net (lat pt) (lon pt) = Inr w" "dryness b = weather.dryness w"
    by (auto simp: site_evaluation_def split: sum.splits)
  with assms(1) pt(1) have "dryness b \<noteq> NaN" by auto
  with pt show ?thesis by blast
qed

lemma forecast_80:
  "getWeather js tie_service (Fin 1) (Fin 0) =
     Inr \<lparr>weather.dryness = Fin 80, weather.precip = Fin 0.5, weather.nearest = JStr []\<rparr>"
  by (simp add: tie_service_def one_hour_def getWeather_simps js_simps)

text \<open>One candidate with a forecast of dryness 80 and 0.5 mm.\<close>

theorem findBestWeather_numeric_if_evaluations_numeric_witness:
  "findBestWeather js tie_service [\<lparr>lat = Fin 1, lon = Fin 0\<rparr>] =
     Some \<lparr>lat = Fin 1, lon = Fin 0, dryness = Fin 80, precip = Fin 0.5, nearest = JStr []\<rparr> \<and>
   dryness \<lparr>lat = Fin 1, lon = Fin 0, dryness = Fin 80, precip = Fin 0.5, nearest = JStr []\<rparr>
     \<noteq> NaN"
proof -
  have 1: "\<forall>pt \<in> set [\<lparr>lat = Fin 1, lon = Fin 0\<rparr>].
             \<forall>w. getWeather js tie_service (lat pt) (lon pt) = Inr w \<longrightarrow> weather.dryness w \<noteq> NaN"
    by (auto simp: forecast_80)
  have 2: "findBestWeather js tie_service [\<lparr>lat = Fin 1, lon = Fin 0\<rparr>] =
     Some \<lparr>lat = Fin 1, lon = Fin 0, dryness = Fin 80, precip = Fin 0.5, nearest = JStr []\<rparr>"
    by (simp add: findBestWeather_def empty_search_def Array_sort_def forecast_80)
  from findBestWeather_numeric_if_evaluations_numeric[OF 1 2] 2 show ?thesis by simp
qed

text \<open>
  Claim C9 as the specification states it fails: for a single candidate whose only
  hour has no dryness chance, \<^verbatim>\<open>findBestWeather\<close> returns the evaluation of that
  candidate, and its dryness score is NaN.
\<close>

theorem findBestWeather_selects_NaN:
  "findBestWeather js missing_field_service [berlin] =
     Some \<lparr>lat = Fin 52.52, lon = Fin 13.405, dryness = NaN, precip = Fin 0, nearest = JStr []\<rparr>"
  by (simp add: findBestWeather_def empty_search_def Array_sort_def berlin_def
      missing_field_service_def missing_field_body_def getWeather_simps js_simps)

section \<open>Properties of the search form\<close>

text \<open>
  Claim C7, as the program has it. The handler returns at once, with no call and
  nothing shown, when the place is empty after trimming or the radius parses to
  NaN. Every other radius is passed on, be it zero, negative or infinite: the
  handler asks the geocoder, and when the place is found it calls
  \<^verbatim>\<open>generateCandidatePoints\<close> with the coordinates and this radius.
\<close>

theorem submit_rejects_only_NaN_radius:
  "(trim location_value = [] \<or> isNaN (parseFloat rt (JStr radius_value)) \<longrightarrow>
      submit rt geo net location_value radius_value = \<lparr>calls = [], shown = Unchanged\<rparr>) \<and>
   (trim location_value \<noteq> [] \<and> \<not> isNaN (parseFloat rt (JStr radius_value)) \<and>
    geo (trim location_value) = Inr (Some coords) \<longrightarrow>
      take 2 (calls (submit rt geo net location_value radius_value)) =
        [Geocoding (trim location_value),
         Generate (lat coords) (lon coords) (parseFloat rt (JStr radius_value))])"
  by (simp add: submit_def Let_def)

text \<open>A radius that is no number, and a radius of 10 km for a place that is found.\<close>

theorem submit_rejects_only_NaN_radius_witness:
  "submit js berlin_geocoder offline ''Berlin'' ''abc'' = \<lparr>calls = [], shown = Unchanged\<rparr> \<and>
   take 2 (calls (submit js berlin_geocoder offline '' Berlin '' ''10'')) =
     [Geocoding ''Berlin'', Generate (Fin 52.52) (Fin 13.405) (Fin 10)]"
proof -
  have a: "isNaN (parseFloat js (JStr ''abc''))"
    by (simp add: isNaN_def js_simps)
  have b: "trim '' Berlin '' = ''Berlin''"
    by (simp add: trim_def is_space_def)
  have c: "\<not> isNaN (parseFloat js (JStr ''10''))" "parseFloat js (JStr ''10'') = Fin 10"
    by (simp_all add: isNaN_def js_simps)
  have d: "berlin_geocoder ''Berlin'' = Inr (Some berlin)"
    by (simp add: berlin_geocoder_def)
  from submit_rejects_only_NaN_radius[of "''Berlin''" js "''abc''" berlin_geocoder offline berlin] a
  have "submit js berlin_geocoder offline ''Berlin'' ''abc'' = \<lparr>calls = [], shown = Unchanged\<rparr>"
    by simp
  moreover
  from submit_rejects_only_NaN_radius[of "'' Berlin ''" js "''10''" berlin_geocoder offline berlin]
    b c d
  have "take 2 (calls (submit js berlin_geocoder offline '' Berlin '' ''10'')) =
     [Geocoding ''Berlin'', Generate (Fin 52.52) (Fin 13.405) (Fin 10)]"
    by (simp add: berlin_def)
  ultimately show ?thesis by simp
qed

text \<open>
  Claim C7 as the specification states it fails: with the radius \<^verbatim>\<open>-5\<close>, \<^verbatim>\<open>0\<close> or
  \<^verbatim>\<open>Infinity\<close> the handler asks the geocoder and calls \<^verbatim>\<open>generateCandidatePoints\<close>
  with that radius.
\<close>

theorem submit_nonpositive_radius_generates:
  "take 2 (calls (submit js berlin_geocoder offline ''Berlin'' ''-5'')) =
     [Geocoding ''Berlin'', Generate (Fin 52.52) (Fin 13.405) (Fin (- 5))] \<and>
   take 2 (calls (submit js berlin_geocoder offline ''Berlin'' ''0'')) =
     [Geocoding ''Berlin'', Generate (Fin 52.52) (Fin 13.405) (Fin 0)] \<and>
   take 2 (calls (submit js berlin_geocoder offline ''Berlin'' ''Infinity'')) =
     [Geocoding ''Berlin'', Generate (Fin 52.52) (Fin 13.405) PInf]"
  by (simp add: submit_def Let_def berlin_geocoder_def berlin_def isNaN_def js_simps)

end
